theory Spec2Isabelle
  imports Main "HOL-Library.Word"
begin

section \<open>Errors and outcomes\<close>

text \<open>
  Go functions of the package return a pair \<open>(value, error)\<close>. The embedding writes the
  pair as a three-way result: a value, a returned error, or the end of the process
  (\<open>log.Fatal\<close> prints its message and exits, and so does a run-time panic that
  nobody recovers: nothing is returned to the caller).

  Error values keep what the source puts into them: \<open>fmt.Errorf\<close> and \<open>errors.New\<close>
  carry the formatted message, \<open>NewLLMError\<close> a message and the wrapped cause, the
  context package its two sentinel errors, and errors that come out of a library
  (tokenizer, provider SDK, HTTP transport) their text.
\<close>

datatype ctx_error = Canceled | DeadlineExceeded

datatype error =
    ContextError ctx_error
  | Errorf string
  | LLMError string "error option"
  | LibError string

datatype 'a result = Ok 'a | Error error | Exit string

definition InvalidLLMModelError :: string where
  "InvalidLLMModelError = ''llm model is not set or is invalid''"

definition NewLLMError :: "string \<Rightarrow> error option \<Rightarrow> error" where
  "NewLLMError message originalError = LLMError message originalError"


section \<open>The retry policy (llm\_base.go)\<close>

text \<open>
  \<open>retryPolicy\<close> is the \<open>CheckRetry\<close> hook of the retrying HTTP client. It sees the
  request's context, the response of the attempt just made (a nil pointer when the
  attempt produced none) and the attempt's error, and answers whether to retry, together
  with an error of its own. \<open>ctx.Err()\<close> is nil, \<open>context.Canceled\<close> or
  \<open>context.DeadlineExceeded\<close>. The library's \<open>DefaultRetryPolicy\<close> is not part of the
  repository and is a parameter.
\<close>

record Context =
  Err :: "ctx_error option"

record Response =
  StatusCode :: int

type_synonym CheckRetry =
  "Context \<Rightarrow> Response option \<Rightarrow> error option \<Rightarrow> bool \<times> error option"

definition retryPolicy :: "CheckRetry \<Rightarrow> CheckRetry" where
  "retryPolicy DefaultRetryPolicy ctx resp err =
     (if Err ctx \<noteq> None then (False, map_option ContextError (Err ctx))
      else if resp \<noteq> None \<and> StatusCode (the resp) = 400 then (False, err)
      else (fst (DefaultRetryPolicy ctx resp err), None))"

text \<open>
  \<open>NewRetryableHTTPClient\<close> builds the client: the retry budget, the per-attempt
  timeout, and \<open>retryPolicy\<close> as its \<open>CheckRetry\<close>.
\<close>

record RetryableClient =
  RetryMax :: int
  Timeout :: int
  CheckRetry :: CheckRetry

definition NewRetryableHTTPClient :: "CheckRetry \<Rightarrow> int \<Rightarrow> int \<Rightarrow> RetryableClient" where
  "NewRetryableHTTPClient DefaultRetryPolicy retryMax timeout =
     \<lparr>RetryMax = retryMax, Timeout = timeout, CheckRetry = retryPolicy DefaultRetryPolicy\<rparr>"

text \<open>
  Modelled from the spec: the loop that drives the attempts (section 4.2, RetryTransport:
  bounded retries around a policy) belongs to the HTTP retry library and is not in the
  repository. One pass makes attempt number \<open>i\<close>, hands what it observed to the client's
  \<open>CheckRetry\<close>, and goes on to attempt \<open>i + 1\<close> only when the policy asks for a retry
  and the budget \<open>RetryMax - i\<close> is not used up. The transport is the function giving,
  for each attempt, the context as the policy finds it and the attempt's response and
  error. The loop returns how many attempts were made and what the last check returned.
\<close>

record Attempt =
  seen_ctx :: Context
  seen_resp :: "Response option"
  seen_err :: "error option"

record Sent =
  attempts :: nat
  last_resp :: "Response option"
  last_err :: "error option"
  check_err :: "error option"

function sendFrom :: "RetryableClient \<Rightarrow> (nat \<Rightarrow> Attempt) \<Rightarrow> nat \<Rightarrow> Sent" where
  "sendFrom c transport i =
     (let a = transport i;
          (shouldRetry, checkErr) = CheckRetry c (seen_ctx a) (seen_resp a) (seen_err a)
      in if shouldRetry \<and> 0 < RetryMax c - int i
         then sendFrom c transport (Suc i)
         else \<lparr>attempts = Suc i, last_resp = seen_resp a, last_err = seen_err a,
               check_err = checkErr\<rparr>)"
  by pat_completeness auto
termination
  by (relation "measure (\<lambda>(c, transport, i). nat (RetryMax c - int i))") auto

definition send :: "RetryableClient \<Rightarrow> (nat \<Rightarrow> Attempt) \<Rightarrow> Sent" where
  "send c transport = sendFrom c transport 0"


section \<open>Configuration (the fields the package reads)\<close>

text \<open>
  The \<open>config\<close> package is not among the sources; the records below hold exactly the
  fields that \<open>llm_base.go\<close>, \<open>llm_openai.go\<close> and the embeddings file read or write.
  An LLM configuration is passed around by pointer (\<open>*config.LLM\<close>) and written through
  it, and \<open>NewLLMClient\<close> hands \<open>cfg.LLM\<close> itself to such a parameter, so the LLM
  configurations live in a store and a \<open>Config\<close> holds their addresses. Every pointer
  that the code dereferences without a nil test is taken to point to a live object.
\<close>

type_synonym addr = nat

record AzureOpenAIConfig =
  LLMDeployment :: string
  EmbeddingDeployment :: string

record LLM =
  Service :: string
  Model :: string
  OpenAIAPIKey :: string
  OpenAIEndpoint :: string
  OpenAIOrgID :: string
  AzureOpenAIEndpoint :: string
  AzureOpenAIModel :: AzureOpenAIConfig

type_synonym store = "addr \<Rightarrow> LLM"

record EmbeddingsConfig =
  emb_Enabled :: bool
  emb_Service :: string
  emb_Dimensions :: int

record ExtractorConfig =
  Embeddings :: EmbeddingsConfig

record ExtractorsConfig =
  Messages :: ExtractorConfig
  Documents :: ExtractorConfig

record OpenAIEmbeddingsConfig =
  Enabled :: bool
  Client :: addr

record Config =
  LLM :: addr
  OpenAIEmbeddings :: OpenAIEmbeddingsConfig
  Extractors :: ExtractorsConfig


section \<open>The known-model registries (llm\_base.go)\<close>

text \<open>
  Go maps from model name to \<open>true\<close>. The two-value lookup \<open>_, ok := m[k]\<close> asks whether
  the key is present; the one-value lookup \<open>m[k]\<close> gives the stored value, and
  \<open>false\<close> for a missing key.
\<close>

definition ValidOpenAILLMs :: "string \<rightharpoonup> bool" where
  "ValidOpenAILLMs = map_of
     [(''gpt-3.5-turbo'', True),
      (''gpt-4'', True),
      (''gpt-3.5-turbo-16k'', True),
      (''gpt-4-32k'', True)]"

definition ValidOpenSourceLLMs :: "string \<rightharpoonup> bool" where
  "ValidOpenSourceLLMs = map_of
     [(''meta-llama/Llama-2-7b-chat-hf'', True),
      (''meta-llama/Llama-2-13b-chat-hf'', True),
      (''meta-llama/Llama-2-70b-chat-hf'', True)]"

definition ValidAnthropicLLMs :: "string \<rightharpoonup> bool" where
  "ValidAnthropicLLMs = map_of
     [(''claude-instant-1'', True),
      (''claude-2'', True)]"

definition has_key :: "(string \<rightharpoonup> bool) \<Rightarrow> string \<Rightarrow> bool" where
  "has_key m k = (m k \<noteq> None)"

definition lookup_bool :: "(string \<rightharpoonup> bool) \<Rightarrow> string \<Rightarrow> bool" where
  "lookup_bool m k = (case m k of None \<Rightarrow> False | Some b \<Rightarrow> b)"


section \<open>The OpenAI client (llm\_openai.go)\<close>

text \<open>
  \<open>configureClient\<close> ends the process when the API key is missing or when both
  endpoints are set; otherwise it collects the options of the chat client: the retrying
  HTTP client (five retries, a timeout of 90 seconds, \<open>retryPolicy\<close> as its check),
  the model and the key, and then the options of the first matching case of its switch
  (Azure endpoint, custom endpoint, organisation). Durations are counted in seconds.
\<close>

definition OpenAIAPITimeout :: int where
  "OpenAIAPITimeout = 90"

definition OpenAIAPIKeyNotSetError :: string where
  "OpenAIAPIKeyNotSetError = ''ZEP_OPENAI_API_KEY is not set''"

definition MaxOpenAIAPIRequestAttempts :: int where
  "MaxOpenAIAPIRequestAttempts = 5"

datatype APIType = APITypeAzure

datatype Option =
    WithHTTPClient RetryableClient
  | WithModel string
  | WithToken string
  | WithAPIType APIType
  | WithBaseURL string
  | WithEmbeddingModel string
  | WithOrganization string

definition configureClient :: "CheckRetry \<Rightarrow> LLM \<Rightarrow> Option list result" where
  "configureClient DefaultRetryPolicy llmConfig =
     (let apiKey = OpenAIAPIKey llmConfig in
      if apiKey = [] then Exit OpenAIAPIKeyNotSetError
      else if AzureOpenAIEndpoint llmConfig \<noteq> [] \<and> OpenAIEndpoint llmConfig \<noteq> []
      then Exit ''only one of AzureOpenAIEndpoint or OpenAIEndpoint can be set''
      else
        let retryableHTTPClient =
              NewRetryableHTTPClient DefaultRetryPolicy MaxOpenAIAPIRequestAttempts
                OpenAIAPITimeout;
            options =
              [WithHTTPClient retryableHTTPClient,
               WithModel (Model llmConfig),
               WithToken apiKey]
        in Ok
          (if AzureOpenAIEndpoint llmConfig \<noteq> [] then
             options @ [WithAPIType APITypeAzure, WithBaseURL (AzureOpenAIEndpoint llmConfig)]
               @ (if EmbeddingDeployment (AzureOpenAIModel llmConfig) \<noteq> []
                  then [WithEmbeddingModel (EmbeddingDeployment (AzureOpenAIModel llmConfig))]
                  else [])
           else if OpenAIEndpoint llmConfig \<noteq> [] then
             options @ [WithBaseURL (OpenAIEndpoint llmConfig)]
           else if OpenAIOrgID llmConfig \<noteq> [] then
             options @ [WithOrganization (OpenAIOrgID llmConfig)]
           else options))"

text \<open>
  The tokenizer and the chat client come from libraries: \<open>tiktoken.GetEncoding\<close> and
  \<open>openai.NewChat\<close> are parameters, each returning a handle or the library's error,
  and so is the retry library's default policy.
  \<open>Init\<close> asks for the tokenizer first, then configures, then builds the chat client;
  \<open>NewOpenAILLM\<close> returns the initialised client or \<open>Init\<close>'s error. The chat
  handle of a client is a pointer that the methods test for nil, so it is optional; it
  stands for the options the client was built with.
\<close>

record Libs =
  DefaultRetryPolicy :: CheckRetry
  GetEncoding :: "string \<Rightarrow> string + string"
  NewChat :: "Option list \<Rightarrow> string + Option list"

record ZepOpenAILLM =
  llm :: "Option list option"
  tkm :: string

definition Init :: "Libs \<Rightarrow> LLM \<Rightarrow> ZepOpenAILLM result" where
  "Init libs llmConfig =
     (case GetEncoding libs ''cl100k_base'' of
        Inl e \<Rightarrow> Error (LibError e)
      | Inr tk \<Rightarrow>
          (case configureClient (DefaultRetryPolicy libs) llmConfig of
             Exit m \<Rightarrow> Exit m
           | Error e \<Rightarrow> Error e
           | Ok options \<Rightarrow>
               (case NewChat libs options of
                  Inl e \<Rightarrow> Error (LibError e)
                | Inr chat \<Rightarrow> Ok \<lparr>llm = Some chat, tkm = tk\<rparr>)))"

definition NewOpenAILLM :: "Libs \<Rightarrow> LLM \<Rightarrow> ZepOpenAILLM result" where
  "NewOpenAILLM libs llmConfig = Init libs llmConfig"


section \<open>Choosing and validating the client (llm\_base.go)\<close>

text \<open>
  A client is a value of the \<open>ZepLLM\<close> interface: the OpenAI client above, or the
  Anthropic client, whose constructor \<open>NewAnthropicLLM\<close> is not among the sources and
  is a parameter (it receives the configuration and the store and may write to it).
\<close>

datatype ZepLLM = OpenAIClient ZepOpenAILLM | AnthropicClient string

type_synonym AnthropicCtor = "Config \<Rightarrow> store \<Rightarrow> ZepLLM result \<times> store"

definition as_ZepLLM :: "ZepOpenAILLM result \<Rightarrow> ZepLLM result" where
  "as_ZepLLM r = (case r of Ok c \<Rightarrow> Ok (OpenAIClient c) | Error e \<Rightarrow> Error e | Exit m \<Rightarrow> Exit m)"

text \<open>\<open>useOpenAIEmbeddings\<close>: a switch whose first true case decides.\<close>

definition useOpenAIEmbeddings :: "Config \<Rightarrow> bool" where
  "useOpenAIEmbeddings cfg =
     (if emb_Enabled (Embeddings (Messages (Extractors cfg)))
      then emb_Service (Embeddings (Messages (Extractors cfg))) = ''openai''
      else if emb_Enabled (Embeddings (Documents (Extractors cfg)))
      then emb_Service (Embeddings (Documents (Extractors cfg))) = ''openai''
      else False)"

text \<open>The three messages that \<open>fmt.Errorf\<close> formats.\<close>

definition err_llm_deployment :: "string \<Rightarrow> error" where
  "err_llm_deployment service =
     Errorf (''invalid llm deployment for '' @ service @ '', deployment name is required'')"

definition err_embeddings_deployment :: "string \<Rightarrow> error" where
  "err_embeddings_deployment service =
     Errorf (''invalid embeddings deployment for '' @ service @ '', deployment name is required'')"

definition err_llm_model :: "string \<Rightarrow> string \<Rightarrow> error" where
  \<open>err_llm_model model service =
     Errorf (''invalid llm model "'' @ model @ ''" for '' @ service)\<close>

text \<open>
  \<open>handleOpenAIClient\<close> receives the pointer \<open>llmConfig\<close> and the purpose
  \<open>clientType\<close>. Its body also reads a variable \<open>cfg\<close> that is neither a parameter nor a
  local: the package's configuration, passed here as the argument \<open>cfg\<close>, with
  \<open>cfg.LLM\<close> read from the same store (so that it may or may not be the object
  \<open>llmConfig\<close> points to). The function returns its result and the store it leaves.

  With an Azure endpoint in \<open>llmConfig\<close>: a non-empty \<open>LLMDeployment\<close> is written to
  \<open>llmConfig.Model\<close>; then a custom endpoint in \<open>cfg.LLM\<close> builds the client at once,
  from \<open>cfg\<close> (its LLM configuration, the only one a \<open>Config\<close> gives to
  \<open>NewOpenAILLM\<close>'s parameter); otherwise \<open>cfg.LLM.Model\<close> must be a key of
  \<open>ValidOpenAILLMs\<close>, the embedding deployment must be there when OpenAI embeddings
  are in use, and the client is built from \<open>llmConfig\<close>.

  Without one: the model must be a key of \<open>ValidOpenAILLMs\<close>, or, for a purpose other
  than embeddings, a model of \<open>ValidOpenSourceLLMs\<close> when \<open>cfg.LLM\<close> has a custom
  endpoint and \<open>cfg.OpenAIEmbeddings.Enabled\<close> holds. The test of the purpose is
  written \<open>clientType = "embeddings"\<close> in the source and is read as the comparison.
\<close>

definition handleOpenAIClient ::
  "Libs \<Rightarrow> Config \<Rightarrow> store \<Rightarrow> addr \<Rightarrow> string \<Rightarrow> ZepLLM result \<times> store" where
  "handleOpenAIClient libs cfg s llmConfig clientType =
     (if AzureOpenAIEndpoint (s llmConfig) \<noteq> [] then
        (let s' = (if LLMDeployment (AzureOpenAIModel (s llmConfig)) \<noteq> []
                   then s(llmConfig := (s llmConfig)
                          \<lparr>Model := LLMDeployment (AzureOpenAIModel (s llmConfig))\<rparr>)
                   else s)
         in if OpenAIEndpoint (s' (LLM cfg)) \<noteq> [] then
              (as_ZepLLM (NewOpenAILLM libs (s' (LLM cfg))), s')
            else if \<not> has_key ValidOpenAILLMs (Model (s' (LLM cfg))) then
              (Error (err_llm_deployment (Service (s' llmConfig))), s')
            else if EmbeddingDeployment (AzureOpenAIModel (s' llmConfig)) = []
                    \<and> useOpenAIEmbeddings cfg then
              (Error (err_embeddings_deployment (Service (s' llmConfig))), s')
            else (as_ZepLLM (NewOpenAILLM libs (s' llmConfig)), s'))
      else
        (let isUsingCustomLLMEndpoint =
               (OpenAIEndpoint (s (LLM cfg)) \<noteq> [] \<and> Enabled (OpenAIEmbeddings cfg));
             isValidOpenAILLM = has_key ValidOpenAILLMs (Model (s llmConfig));
             isValidOpenSourceLLM =
               (isUsingCustomLLMEndpoint \<and> lookup_bool ValidOpenSourceLLMs (Model (s llmConfig)));
             isValidLLM = (isValidOpenAILLM \<or> isValidOpenSourceLLM);
             err = err_llm_model (Model (s llmConfig)) (Service (s llmConfig))
         in if clientType = ''embeddings'' \<and> \<not> isValidOpenAILLM then (Error err, s)
            else if \<not> isValidLLM then (Error err, s)
            else (as_ZepLLM (NewOpenAILLM libs (s llmConfig)), s)))"

text \<open>
  \<open>NewLLMClient\<close> and \<open>NewEmbeddingsClient\<close> switch on the service of \<open>cfg.LLM\<close> and
  of \<open>cfg.OpenAIEmbeddings.Client\<close>. Their parameter is named \<open>cfg\<close> too; the
  package's \<open>cfg\<close> that \<open>handleOpenAIClient\<close> reads is the argument \<open>pkg\<close> here.
\<close>

definition NewLLMClient ::
  "Libs \<Rightarrow> AnthropicCtor \<Rightarrow> Config \<Rightarrow> store \<Rightarrow> Config \<Rightarrow> ZepLLM result \<times> store" where
  "NewLLMClient libs NewAnthropicLLM pkg s cfg =
     (let llmConfig = LLM cfg in
      if Service (s llmConfig) = ''openai'' then handleOpenAIClient libs pkg s llmConfig ''llm''
      else if Service (s llmConfig) = ''anthropic'' then
        (if \<not> has_key ValidAnthropicLLMs (Model (s llmConfig))
         then (Error (err_llm_model (Model (s llmConfig)) (Service (s llmConfig))), s)
         else NewAnthropicLLM cfg s)
      else if Service (s llmConfig) = [] then (as_ZepLLM (NewOpenAILLM libs (s llmConfig)), s)
      else (Error (Errorf (''invalid LLM service: '' @ Service (s llmConfig))), s))"

definition NewEmbeddingsClient ::
  "Libs \<Rightarrow> Config \<Rightarrow> store \<Rightarrow> Config \<Rightarrow> ZepLLM result \<times> store" where
  "NewEmbeddingsClient libs pkg s cfg =
     (let llmConfig = Client (OpenAIEmbeddings cfg) in
      if Service (s llmConfig) = ''openai''
      then handleOpenAIClient libs pkg s llmConfig ''embeddings''
      else if Service (s llmConfig) = [] then (as_ZepLLM (NewOpenAILLM libs (s llmConfig)), s)
      else (Error (Errorf (''invalid OpenAI Embeddings service: '' @ Service (s llmConfig))), s))"


section \<open>Embedding texts\<close>

text \<open>
  Vectors are rows of \<open>float32\<close>, kept as their 32 bits: the code moves them and never
  computes with them. \<open>EmbedTexts\<close> of the OpenAI client refuses a client without chat
  handle, and otherwise wraps the error of the SDK's \<open>CreateEmbedding\<close>. The SDK call,
  the Anthropic client's method and the local embedder \<open>embedTextsLocal\<close> are not among
  the sources and are parameters.
\<close>

type_synonym float32 = "32 word"

type_synonym vectors = "float32 list list"

record Collaborators =
  CreateEmbedding :: "Option list \<Rightarrow> string list \<Rightarrow> string + vectors"
  AnthropicEmbedTexts :: "string \<Rightarrow> string list \<Rightarrow> vectors result"
  embedTextsLocal :: "string \<Rightarrow> string list \<Rightarrow> vectors result"

definition OpenAI_EmbedTexts :: "Collaborators \<Rightarrow> ZepOpenAILLM \<Rightarrow> string list \<Rightarrow> vectors result" where
  "OpenAI_EmbedTexts co zllm texts =
     (case llm zllm of
        None \<Rightarrow> Error (NewLLMError InvalidLLMModelError None)
      | Some chat \<Rightarrow>
          (case CreateEmbedding co chat texts of
             Inl e \<Rightarrow> Error (NewLLMError ''error while creating embedding'' (Some (LibError e)))
           | Inr embeddings \<Rightarrow> Ok embeddings))"

text \<open>The method call on the interface value goes to the client's own method.\<close>

definition ZepLLM_EmbedTexts :: "Collaborators \<Rightarrow> ZepLLM \<Rightarrow> string list \<Rightarrow> vectors result" where
  "ZepLLM_EmbedTexts co client texts =
     (case client of
        OpenAIClient zllm \<Rightarrow> OpenAI_EmbedTexts co zllm texts
      | AnthropicClient h \<Rightarrow> AnthropicEmbedTexts co h texts)"

record EmbeddingModel =
  model_Service :: string
  model_Dimensions :: int

record AppState =
  EmbeddingsClient :: "ZepLLM option"
  app_Config :: Config

text \<open>
  \<open>EmbedTexts\<close> returns its result together with the calls it made to the embedders, in
  order: the local one with the document type and the texts, or the client with the
  texts. The checks come in the order of the source: the empty slice, the nil client,
  the local service.
\<close>

datatype call = LocalCall string "string list" | ClientCall ZepLLM "string list"

definition EmbedTexts ::
  "Collaborators \<Rightarrow> AppState \<Rightarrow> EmbeddingModel \<Rightarrow> string \<Rightarrow> string list
     \<Rightarrow> vectors result \<times> call list" where
  "EmbedTexts co appState model documentType texts =
     (if length texts = 0 then (Error (Errorf ''no text to embed''), [])
      else
        (case EmbeddingsClient appState of
           None \<Rightarrow> (Error (Errorf InvalidLLMModelError), [])
         | Some embeddingsClient \<Rightarrow>
             if model_Service model = ''local''
             then (embedTextsLocal co documentType texts, [LocalCall documentType texts])
             else (ZepLLM_EmbedTexts co embeddingsClient texts,
                   [ClientCall embeddingsClient texts])))"

definition GetEmbeddingModel :: "AppState \<Rightarrow> string \<Rightarrow> EmbeddingModel result" where
  "GetEmbeddingModel appState documentType =
     (if documentType = ''message'' then
        (let config = Embeddings (Messages (Extractors (app_Config appState)))
         in Ok \<lparr>model_Service = emb_Service config, model_Dimensions = emb_Dimensions config\<rparr>)
      else if documentType = ''document'' then
        (let config = Embeddings (Documents (Extractors (app_Config appState)))
         in Ok \<lparr>model_Service = emb_Service config, model_Dimensions = emb_Dimensions config\<rparr>)
      else Error (Errorf ''invalid document type''))"


section \<open>The summarizer\<close>

text \<open>
  Only the summarizer's test is among the sources. The test gives the names: a message
  has a \<open>UUID\<close>, a summary a \<open>Content\<close>, a \<open>TokenCount\<close> and a \<open>SummaryPointUUID\<close>,
  and a summary may be nil. A UUID is 16 bytes. The completion call, the prompt
  template and the token counter belong to the client and are parameters.
\<close>

type_synonym uuid = "128 word"

record Message =
  UUID :: uuid
  msg_Content :: string

record Summary =
  Content :: string
  TokenCount :: int
  SummaryPointUUID :: uuid

record Summarizer =
  Complete :: "string \<Rightarrow> string result"
  Prompt :: "string \<Rightarrow> string"
  GetTokenCount :: "string \<Rightarrow> int"

text \<open>
  Integer division as Go has it: the quotient is truncated toward zero. It is used with
  the divisor 2 only.
\<close>

definition quot :: "int \<Rightarrow> int \<Rightarrow> int" where
  "quot a b = sgn a * sgn b * (\<bar>a\<bar> div \<bar>b\<bar>)"

text \<open>
  Modelled from the spec: the position of a summary point among the messages (section
  3: the summary point marks the newest message already folded in). It is the index of
  the first message with that UUID, and \<open>-1\<close> when no message has it, as for a nil
  summary and for a summary that never had a summary point.
\<close>

fun indexOf :: "uuid \<Rightarrow> Message list \<Rightarrow> int" where
  "indexOf u [] = - 1"
| "indexOf u (m # ms) =
     (if UUID m = u then 0
      else (let i = indexOf u ms in if i < 0 then - 1 else i + 1))"

definition priorSummaryPointIndex :: "Message list \<Rightarrow> Summary option \<Rightarrow> int" where
  "priorSummaryPointIndex messages priorSummary =
     (case priorSummary of
        None \<Rightarrow> - 1
      | Some p \<Rightarrow> indexOf (SummaryPointUUID p) messages)"

text \<open>
  Modelled from the spec: step 1 of section 4.4,
  \<open>cutIndex = len(messages) - max(minPendingCount, windowSize/2) - 1\<close>.
\<close>

definition cutIndexOf :: "int \<Rightarrow> Message list \<Rightarrow> int \<Rightarrow> int" where
  "cutIndexOf windowSize messages minPendingCount =
     int (length messages) - max minPendingCount (quot windowSize 2) - 1"

text \<open>
  Modelled from the spec: the text of step 3 of section 4.4, the prior content (empty
  for a nil summary) followed by the texts of the messages after the prior point up to
  and including the cut index.
\<close>

definition summaryInput :: "Message list \<Rightarrow> Summary option \<Rightarrow> int \<Rightarrow> int \<Rightarrow> string" where
  "summaryInput messages priorSummary priorIndex cutIndex =
     (let priorContent = (case priorSummary of None \<Rightarrow> [] | Some p \<Rightarrow> Content p);
          pending = take (nat (cutIndex - priorIndex)) (drop (nat (priorIndex + 1)) messages)
      in priorContent @ concat (map msg_Content pending))"

text \<open>
  Modelled from the spec: \<open>summarize\<close> itself is missing (section 4.4 of the spec gives
  its five steps). Step 1 computes the cut index; step 2 returns the prior summary as it
  is when the cut index is negative or does not pass the prior summary point; step 3
  completes the prompt built from the text above; step 4 counts the tokens of the new
  content; step 5 returns the new summary, whose summary point is the UUID of the
  message at the cut index. An error of the completion is returned. The spec says
  nothing of a cut index beyond the last message (possible only when both the window
  size and the pending count are negative); indexing there ends the Go process with a
  run-time panic.
\<close>

definition summarize ::
  "Summarizer \<Rightarrow> int \<Rightarrow> Message list \<Rightarrow> Summary option \<Rightarrow> int \<Rightarrow> Summary option result" where
  "summarize d windowSize messages priorSummary minPendingCount =
     (let cutIndex = cutIndexOf windowSize messages minPendingCount;
          priorIndex = priorSummaryPointIndex messages priorSummary
      in if cutIndex < 0 \<or> cutIndex \<le> priorIndex then Ok priorSummary
         else if int (length messages) \<le> cutIndex then Exit ''index out of range''
         else
           (case Complete d (Prompt d (summaryInput messages priorSummary priorIndex cutIndex)) of
              Error e \<Rightarrow> Error e
            | Exit m \<Rightarrow> Exit m
            | Ok content \<Rightarrow>
                Ok (Some \<lparr>Content = content,
                          TokenCount = GetTokenCount d content,
                          SummaryPointUUID = UUID (messages ! nat cutIndex)\<rparr>)))"


section \<open>Concrete inputs\<close>

text \<open>Inputs on which the properties below are exercised.\<close>

definition always_retry :: CheckRetry where
  "always_retry ctx resp err = (True, None)"

definition live :: Context where
  "live = \<lparr>Err = None\<rparr>"


definition replies :: "Context \<Rightarrow> int list \<Rightarrow> nat \<Rightarrow> Attempt" where
  "replies ctx codes i =
     \<lparr>seen_ctx = ctx,
      seen_resp = (if i < length codes then Some \<lparr>StatusCode = codes ! i\<rparr> else None),
      seen_err = None\<rparr>"


definition libs0 :: Libs where
  "libs0 = \<lparr>DefaultRetryPolicy = always_retry,
            GetEncoding = (\<lambda>name. Inr name), NewChat = (\<lambda>options. Inr options)\<rparr>"

definition anthropic0 :: AnthropicCtor where
  "anthropic0 cfg s = (Ok (AnthropicClient (Model (s (LLM cfg)))), s)"

definition llm0 :: LLM where
  "llm0 = \<lparr>Service = ''openai'', Model = ''gpt-4'', OpenAIAPIKey = ''sk-test'',
           OpenAIEndpoint = [], OpenAIOrgID = [], AzureOpenAIEndpoint = [],
           AzureOpenAIModel = \<lparr>LLMDeployment = [], EmbeddingDeployment = []\<rparr>\<rparr>"

text \<open>
  \<open>cfg0\<close> has its LLM configuration at address 0 and the configuration of the
  embeddings client at address 1, and uses OpenAI embeddings for messages; \<open>cfg_local\<close>
  embeds locally.
\<close>

definition cfg0 :: Config where
  "cfg0 = \<lparr>LLM = 0,
           OpenAIEmbeddings = \<lparr>Enabled = True, Client = 1\<rparr>,
           Extractors =
             \<lparr>Messages = \<lparr>Embeddings = \<lparr>emb_Enabled = True, emb_Service = ''openai'',
                                       emb_Dimensions = 1536\<rparr>\<rparr>,
              Documents = \<lparr>Embeddings = \<lparr>emb_Enabled = False, emb_Service = ''local'',
                                        emb_Dimensions = 384\<rparr>\<rparr>\<rparr>\<rparr>"


definition s_custom :: store where
  "s_custom = (\<lambda>a. llm0\<lparr>Model := ''my-local-model'',
                         OpenAIEndpoint := ''http://localhost:8080/v1''\<rparr>)"

definition s_llama :: store where
  "s_llama = (\<lambda>a. llm0\<lparr>Model := ''meta-llama/Llama-2-7b-chat-hf'',
                        OpenAIEndpoint := ''http://localhost:8080/v1''\<rparr>)"

definition s_unset :: store where
  "s_unset = (\<lambda>a. llm0\<lparr>Service := [], Model := ''no-such-model''\<rparr>)"

definition s_unknown :: store where
  "s_unknown = (\<lambda>a. llm0\<lparr>Model := ''no-such-model''\<rparr>)"

definition s_claude :: store where
  "s_claude = (\<lambda>a. llm0\<lparr>Service := ''anthropic''\<rparr>)"

definition s_azure :: store where
  "s_azure = (\<lambda>a. llm0\<lparr>AzureOpenAIEndpoint := ''https://zep.openai.azure.com'',
                 AzureOpenAIModel := \<lparr>LLMDeployment = ''gpt-4-32k'', EmbeddingDeployment = ''ada''\<rparr>\<rparr>)"



definition co0 :: Collaborators where
  "co0 = \<lparr>CreateEmbedding = (\<lambda>chat texts. Inr (map (\<lambda>t. [1, 2]) texts)),
          AnthropicEmbedTexts = (\<lambda>h texts. Error (LibError ''not supported'')),
          embedTextsLocal = (\<lambda>documentType texts. Ok (map (\<lambda>t. [3]) texts))\<rparr>"

definition client0 :: ZepLLM where
  "client0 = OpenAIClient \<lparr>llm = Some [WithModel ''gpt-4''], tkm = ''cl100k_base''\<rparr>"

definition app_nil :: AppState where
  "app_nil = \<lparr>EmbeddingsClient = None, app_Config = cfg0\<rparr>"

definition app0 :: AppState where
  "app0 = \<lparr>EmbeddingsClient = Some client0, app_Config = cfg0\<rparr>"

definition local_model :: EmbeddingModel where
  "local_model = \<lparr>model_Service = ''local'', model_Dimensions = 384\<rparr>"

definition openai_model :: EmbeddingModel where
  "openai_model = \<lparr>model_Service = ''openai'', model_Dimensions = 1536\<rparr>"

text \<open>
  The summarizer's test: twelve messages, a window of 10, and either an existing summary
  that has no summary point or none at all.
\<close>

definition d0 :: Summarizer where
  "d0 = \<lparr>Complete = (\<lambda>prompt. Ok (''Summary: '' @ prompt)),
          Prompt = (\<lambda>input. input),
          GetTokenCount = (\<lambda>t. int (length t))\<rparr>"

definition msgs12 :: "Message list" where
  "msgs12 =
     [\<lparr>UUID = 101, msg_Content = ''a''\<rparr>, \<lparr>UUID = 102, msg_Content = ''b''\<rparr>,
      \<lparr>UUID = 103, msg_Content = ''c''\<rparr>, \<lparr>UUID = 104, msg_Content = ''d''\<rparr>,
      \<lparr>UUID = 105, msg_Content = ''e''\<rparr>, \<lparr>UUID = 106, msg_Content = ''f''\<rparr>,
      \<lparr>UUID = 107, msg_Content = ''g''\<rparr>, \<lparr>UUID = 108, msg_Content = ''h''\<rparr>,
      \<lparr>UUID = 109, msg_Content = ''i''\<rparr>, \<lparr>UUID = 110, msg_Content = ''j''\<rparr>,
      \<lparr>UUID = 111, msg_Content = ''k''\<rparr>, \<lparr>UUID = 112, msg_Content = ''l''\<rparr>]"

definition existing :: Summary where
  "existing = \<lparr>Content = ''Existing summary content'', TokenCount = 10, SummaryPointUUID = 0\<rparr>"

definition summary7 :: Summary where
  "summary7 = \<lparr>Content = ''Summary: abcdefg'', TokenCount = 16, SummaryPointUUID = 107\<rparr>"


section \<open>Properties of the retry policy\<close>

declare sendFrom.simps [simp del]

lemma sendFrom_stop:
  "\<not> fst (CheckRetry c (seen_ctx (transport i)) (seen_resp (transport i)) (seen_err (transport i)))
   \<Longrightarrow> sendFrom c transport i =
       \<lparr>attempts = Suc i, last_resp = seen_resp (transport i), last_err = seen_err (transport i),
        check_err = snd (CheckRetry c (seen_ctx (transport i)) (seen_resp (transport i))
                     (seen_err (transport i)))\<rparr>"
  by (subst sendFrom.simps) (auto simp: Let_def split: prod.splits)

text \<open>
  C3. A response with status code 400 is never retried. Whatever the context, the
  attempt's error and the library's default policy are, \<open>retryPolicy\<close> answers "do not
  retry" to a response whose status code is 400, and the error it hands back is the
  attempt's own error (the context's error when the context is done). In the loop, a
  pass whose attempt got a 400 response is the last one: the number of attempts made is
  that attempt's number, whatever retry budget is left.
\<close>

theorem C3_bad_request_not_retried:
  assumes "StatusCode r = 400"
  shows "fst (retryPolicy D ctx (Some r) err) = False
       \<and> snd (retryPolicy D ctx (Some r) err)
           = (case Err ctx of None \<Rightarrow> err | Some e \<Rightarrow> Some (ContextError e))
       \<and> (seen_resp (transport i) = Some r \<longrightarrow>
            attempts (sendFrom (NewRetryableHTTPClient D retryMax timeout) transport i) = Suc i)"
proof -
  have p: "\<And>c e. fst (retryPolicy D c (Some r) e) = False"
    using assms by (simp add: retryPolicy_def)
  have s: "snd (retryPolicy D ctx (Some r) err)
           = (case Err ctx of None \<Rightarrow> err | Some e \<Rightarrow> Some (ContextError e))"
    using assms by (simp add: retryPolicy_def split: option.splits)
  have l: "seen_resp (transport i) = Some r \<Longrightarrow>
            attempts (sendFrom (NewRetryableHTTPClient D retryMax timeout) transport i) = Suc i"
    by (subst sendFrom_stop) (simp_all add: NewRetryableHTTPClient_def p)
  from p s l show ?thesis by blast
qed

theorem C3_bad_request_not_retried_witness:
  "StatusCode \<lparr>StatusCode = 400\<rparr> = 400
   \<and> fst (retryPolicy always_retry live (Some \<lparr>StatusCode = 400\<rparr>) None) = False
   \<and> snd (retryPolicy always_retry live (Some \<lparr>StatusCode = 400\<rparr>) None) = None
   \<and> attempts (sendFrom (NewRetryableHTTPClient always_retry 5 90)
                 (replies live [500, 400, 200]) 1) = 2"
  using C3_bad_request_not_retried [where r = "\<lparr>StatusCode = 400\<rparr>" and D = always_retry
      and ctx = live and err = None and transport = "replies live [500, 400, 200]"
      and i = 1 and retryMax = 5 and timeout = 90]
  by (simp add: live_def replies_def)




section \<open>Properties of embedding\<close>

text \<open>
  C10. With texts to embed and no embeddings client in the application state,
  \<open>EmbedTexts\<close> returns the error "llm model is not set or is invalid" and calls no
  embedder, whatever the embedding model is, the local service included: the test for
  the nil client comes before the test for the local service.
\<close>

theorem C10_nil_client_before_local:
  assumes "texts \<noteq> []" and "EmbeddingsClient appState = None"
  shows "EmbedTexts co appState model documentType texts
         = (Error (Errorf InvalidLLMModelError), [])"
  using assms by (simp add: EmbedTexts_def)

theorem C10_nil_client_before_local_witness:
  "[''hello''] \<noteq> [] \<and> EmbeddingsClient app_nil = None
   \<and> model_Service local_model = ''local''
   \<and> EmbedTexts co0 app_nil local_model ''message'' [''hello'']
       = (Error (Errorf ''llm model is not set or is invalid''), [])"
  using C10_nil_client_before_local [where texts = "[''hello'']" and appState = app_nil
     and co = co0 and model = local_model and documentType = "''message''"]
  by (simp add: app_nil_def local_model_def InvalidLLMModelError_def)

text \<open>
  C4, as the code has it. The claim sends every non-empty request for the local service
  to the local embedder. The code first asks for an embeddings client: without one,
  the local embedder is not called and an error is returned, although the local
  embedder would have answered.
\<close>

theorem C4_local_without_client_counterexample:
  "[''hello''] \<noteq> [] \<and> model_Service local_model = ''local''
   \<and> EmbedTexts co0 app_nil local_model ''message'' [''hello'']
       = (Error (Errorf ''llm model is not set or is invalid''), [])
   \<and> embedTextsLocal co0 ''message'' [''hello''] = Ok [[3]]"
  by (simp add: EmbedTexts_def app_nil_def local_model_def co0_def InvalidLLMModelError_def)

text \<open>
  C4, amended. \<open>EmbedTexts\<close> dispatches in four steps: an empty slice of texts gives
  the error "no text to embed" and no call; otherwise a nil embeddings client gives the
  error "llm model is not set or is invalid" and no call; otherwise the service "local"
  gives the result of the local embedder, called once with the document type and the
  texts, and no call to the client; otherwise the result is that of the client's
  \<open>EmbedTexts\<close>, called once with the texts.
\<close>

theorem C4_embed_dispatch:
  "(texts = [] \<longrightarrow>
      EmbedTexts co appState model documentType texts = (Error (Errorf ''no text to embed''), []))
   \<and> (texts \<noteq> [] \<and> EmbeddingsClient appState = None \<longrightarrow>
      EmbedTexts co appState model documentType texts = (Error (Errorf InvalidLLMModelError), []))
   \<and> (texts \<noteq> [] \<and> EmbeddingsClient appState = Some c \<and> model_Service model = ''local'' \<longrightarrow>
      EmbedTexts co appState model documentType texts
        = (embedTextsLocal co documentType texts, [LocalCall documentType texts]))
   \<and> (texts \<noteq> [] \<and> EmbeddingsClient appState = Some c \<and> model_Service model \<noteq> ''local'' \<longrightarrow>
      EmbedTexts co appState model documentType texts
        = (ZepLLM_EmbedTexts co c texts, [ClientCall c texts]))"
  by (simp add: EmbedTexts_def)

theorem C4_embed_dispatch_witness:
  "EmbedTexts co0 app0 openai_model ''message'' [] = (Error (Errorf ''no text to embed''), [])
   \<and> EmbedTexts co0 app_nil openai_model ''message'' [''hello'']
       = (Error (Errorf ''llm model is not set or is invalid''), [])
   \<and> EmbedTexts co0 app0 local_model ''message'' [''hello'']
       = (Ok [[3]], [LocalCall ''message'' [''hello'']])
   \<and> EmbedTexts co0 app0 openai_model ''message'' [''hello'']
       = (Ok [[1, 2]], [ClientCall client0 [''hello'']])"
  using C4_embed_dispatch [where texts = "[]" and co = co0 and appState = app0
      and model = openai_model and documentType = "''message''"]
    C4_embed_dispatch [where texts = "[''hello'']" and co = co0 and appState = app_nil
      and model = openai_model and documentType = "''message''"]
    C4_embed_dispatch [where texts = "[''hello'']" and co = co0 and appState = app0
      and model = local_model and documentType = "''message''" and c = client0]
    C4_embed_dispatch [where texts = "[''hello'']" and co = co0 and appState = app0
      and model = openai_model and documentType = "''message''" and c = client0]
  by (simp add: app0_def app_nil_def local_model_def openai_model_def co0_def client0_def
      InvalidLLMModelError_def ZepLLM_EmbedTexts_def OpenAI_EmbedTexts_def)


section \<open>Properties of client resolution\<close>

lemmas input_defs = libs0_def anthropic0_def cfg0_def llm0_def

lemmas resolve_defs = NewLLMClient_def NewEmbeddingsClient_def handleOpenAIClient_def
  as_ZepLLM_def NewOpenAILLM_def Init_def configureClient_def useOpenAIEmbeddings_def
  has_key_def lookup_bool_def ValidOpenAILLMs_def ValidOpenSourceLLMs_def
  ValidAnthropicLLMs_def Let_def MaxOpenAIAPIRequestAttempts_def OpenAIAPITimeout_def




text \<open>The store that \<open>handleOpenAIClient\<close> leaves, and its result on the Azure path.\<close>

lemma handle_store:
  "snd (handleOpenAIClient libs pkg s p ct) =
     (if AzureOpenAIEndpoint (s p) \<noteq> [] \<and> LLMDeployment (AzureOpenAIModel (s p)) \<noteq> []
      then s(p := (s p)\<lparr>Model := LLMDeployment (AzureOpenAIModel (s p))\<rparr>) else s)"
  by (simp add: handleOpenAIClient_def Let_def)



text \<open>
  C5, as the code has it. The claim leaves the configuration as it was. With an Azure
  endpoint and an LLM deployment name, resolving a completion client writes the
  deployment name over the model of the configuration it was given: the model is
  \<open>gpt-4\<close> before the call and \<open>gpt-4-32k\<close> after it.
\<close>

theorem C5_model_overwritten_counterexample:
  "Model (s_azure (LLM cfg0)) = ''gpt-4''
   \<and> Model (snd (NewLLMClient libs0 anthropic0 cfg0 s_azure cfg0) (LLM cfg0)) = ''gpt-4-32k''"
  by (simp add: input_defs resolve_defs s_azure_def)

text \<open>
  C5, amended. Resolving a client writes to the configuration in one case only: for
  the service "openai" with an Azure endpoint and a non-empty LLM deployment name,
  the model of the LLM configuration being resolved becomes the deployment name. Every
  other field, every other LLM configuration, and the configuration in every other
  case is after the call what it was before. This holds for the embeddings client and
  for the completion client, up to the call of the Anthropic constructor, which is
  not among the sources (so a run that reaches it is left out).
\<close>

theorem C5_only_azure_deployment_written:
  assumes "r = NewEmbeddingsClient libs pkg s cfg \<and> p = Client (OpenAIEmbeddings cfg)
         \<or> r = NewLLMClient libs A pkg s cfg \<and> p = LLM cfg
           \<and> (Service (s p) = ''anthropic'' \<longrightarrow> \<not> has_key ValidAnthropicLLMs (Model (s p)))"
  shows "snd r =
     (if Service (s p) = ''openai'' \<and> AzureOpenAIEndpoint (s p) \<noteq> []
         \<and> LLMDeployment (AzureOpenAIModel (s p)) \<noteq> []
      then s(p := (s p)\<lparr>Model := LLMDeployment (AzureOpenAIModel (s p))\<rparr>) else s)"
  using assms
  by (auto simp: NewEmbeddingsClient_def NewLLMClient_def handle_store Let_def)

theorem C5_only_azure_deployment_written_witness:
  "Service (s_azure (LLM cfg0)) = ''openai'' \<and> AzureOpenAIEndpoint (s_azure (LLM cfg0)) \<noteq> []
   \<and> snd (NewLLMClient libs0 anthropic0 cfg0 s_azure cfg0)
       = s_azure(LLM cfg0 := (s_azure (LLM cfg0))\<lparr>Model := ''gpt-4-32k''\<rparr>)
   \<and> snd (NewEmbeddingsClient libs0 cfg0 s_custom cfg0) = s_custom"
  using C5_only_azure_deployment_written
      [where r = "NewLLMClient libs0 anthropic0 cfg0 s_azure cfg0" and p = "LLM cfg0"
       and libs = libs0 and A = anthropic0 and pkg = cfg0 and s = s_azure and cfg = cfg0]
    C5_only_azure_deployment_written
      [where r = "NewEmbeddingsClient libs0 cfg0 s_custom cfg0"
       and p = "Client (OpenAIEmbeddings cfg0)"
       and libs = libs0 and pkg = cfg0 and s = s_custom and cfg = cfg0]
  by (simp add: input_defs s_azure_def s_custom_def)

text \<open>
  C2, as the code has it. The claim lets every model through when a custom endpoint is
  set and no Azure endpoint is. For the service "openai" the code validates all the
  same: a model that is in neither registry is refused with the error that names it.
\<close>

theorem C2_unknown_model_refused_counterexample:
  "AzureOpenAIEndpoint (s_custom (LLM cfg0)) = []
   \<and> OpenAIEndpoint (s_custom (LLM cfg0)) = ''http://localhost:8080/v1''
   \<and> Model (s_custom (LLM cfg0)) = ''my-local-model''
   \<and> NewLLMClient libs0 anthropic0 cfg0 s_custom cfg0
       = (Error (err_llm_model ''my-local-model'' ''openai''), s_custom)"
  by (simp add: input_defs resolve_defs s_custom_def)

text \<open>
  C2, amended. With a custom endpoint (the one the code reads, \<open>cfg.LLM.OpenAIEndpoint\<close>
  of the package's configuration) and no Azure endpoint, resolving a completion client
  for the service "openai" still validates the model, against a wider registry: the
  client is built when the model is a known OpenAI model, or a known open-source model
  while \<open>cfg.OpenAIEmbeddings.Enabled\<close> holds, and every other model is refused with
  the error naming the model and the service. For the unset service the client is
  built without any validation of the model.
\<close>

theorem C2_custom_endpoint_validated:
  assumes "AzureOpenAIEndpoint (s (LLM cfg)) = []" and "OpenAIEndpoint (s (LLM pkg)) \<noteq> []"
  shows "(Service (s (LLM cfg)) = ''openai'' \<longrightarrow>
           NewLLMClient libs A pkg s cfg =
             (if has_key ValidOpenAILLMs (Model (s (LLM cfg)))
                 \<or> Enabled (OpenAIEmbeddings pkg)
                    \<and> lookup_bool ValidOpenSourceLLMs (Model (s (LLM cfg)))
              then (as_ZepLLM (NewOpenAILLM libs (s (LLM cfg))), s)
              else (Error (err_llm_model (Model (s (LLM cfg))) ''openai''), s)))
       \<and> (Service (s (LLM cfg)) = [] \<longrightarrow>
           NewLLMClient libs A pkg s cfg = (as_ZepLLM (NewOpenAILLM libs (s (LLM cfg))), s))"
  using assms
  by (auto simp: NewLLMClient_def handleOpenAIClient_def Let_def)

theorem C2_custom_endpoint_validated_witness:
  "AzureOpenAIEndpoint (s_llama (LLM cfg0)) = [] \<and> OpenAIEndpoint (s_llama (LLM cfg0)) \<noteq> []
   \<and> NewLLMClient libs0 anthropic0 cfg0 s_llama cfg0
       = (Ok (OpenAIClient
            \<lparr>llm = Some [WithHTTPClient (NewRetryableHTTPClient always_retry 5 90),
                         WithModel ''meta-llama/Llama-2-7b-chat-hf'',
                         WithToken ''sk-test'', WithBaseURL ''http://localhost:8080/v1''],
             tkm = ''cl100k_base''\<rparr>), s_llama)"
  using C2_custom_endpoint_validated [where s = s_llama and cfg = cfg0 and pkg = cfg0
      and libs = libs0 and A = anthropic0]
  by (simp add: input_defs s_llama_def has_key_def lookup_bool_def ValidOpenAILLMs_def
      ValidOpenSourceLLMs_def as_ZepLLM_def NewOpenAILLM_def Init_def configureClient_def
      MaxOpenAIAPIRequestAttempts_def OpenAIAPITimeout_def)

text \<open>
  C6, as the code has it. The claim refuses every unknown model when neither endpoint
  is set. With the service left unset the code builds the OpenAI client at once ("for
  backward compatibility"): a model that no registry knows is accepted.
\<close>

theorem C6_unset_service_unvalidated_counterexample:
  "Service (s_unset (LLM cfg0)) = [] \<and> AzureOpenAIEndpoint (s_unset (LLM cfg0)) = []
   \<and> OpenAIEndpoint (s_unset (LLM cfg0)) = []
   \<and> \<not> has_key ValidOpenAILLMs (Model (s_unset (LLM cfg0)))
   \<and> NewLLMClient libs0 anthropic0 cfg0 s_unset cfg0
       = (Ok (OpenAIClient
            \<lparr>llm = Some [WithHTTPClient (NewRetryableHTTPClient always_retry 5 90),
                         WithModel ''no-such-model'', WithToken ''sk-test''],
             tkm = ''cl100k_base''\<rparr>), s_unset)"
  by (simp add: input_defs resolve_defs s_unset_def)

text \<open>
  C6, amended. With no Azure endpoint and no custom endpoint, a completion client for
  the service "openai" whose model is not a known OpenAI model is refused with the
  error naming the model and the service, and no client is returned; so is one for the
  service "anthropic" whose model is not a known Anthropic model; and so is an
  embeddings client for the service "openai" whose model is not a known OpenAI model.
  With the service unset the model is not validated: the result is whatever building
  the OpenAI client gives.
\<close>

theorem C6_unknown_model_refused:
  "(Service (s (LLM cfg)) = ''openai'' \<and> AzureOpenAIEndpoint (s (LLM cfg)) = []
      \<and> OpenAIEndpoint (s (LLM pkg)) = [] \<and> \<not> has_key ValidOpenAILLMs (Model (s (LLM cfg)))
    \<longrightarrow> NewLLMClient libs A pkg s cfg = (Error (err_llm_model (Model (s (LLM cfg))) ''openai''), s))
   \<and> (Service (s (LLM cfg)) = ''anthropic'' \<and> \<not> has_key ValidAnthropicLLMs (Model (s (LLM cfg)))
    \<longrightarrow> NewLLMClient libs A pkg s cfg = (Error (err_llm_model (Model (s (LLM cfg))) ''anthropic''), s))
   \<and> (Service (s (Client (OpenAIEmbeddings cfg))) = ''openai''
      \<and> AzureOpenAIEndpoint (s (Client (OpenAIEmbeddings cfg))) = []
      \<and> \<not> has_key ValidOpenAILLMs (Model (s (Client (OpenAIEmbeddings cfg))))
    \<longrightarrow> NewEmbeddingsClient libs pkg s cfg
        = (Error (err_llm_model (Model (s (Client (OpenAIEmbeddings cfg)))) ''openai''), s))
   \<and> (Service (s (LLM cfg)) = []
    \<longrightarrow> NewLLMClient libs A pkg s cfg = (as_ZepLLM (NewOpenAILLM libs (s (LLM cfg))), s))"
  by (auto simp: NewLLMClient_def NewEmbeddingsClient_def handleOpenAIClient_def Let_def)

theorem C6_unknown_model_refused_witness:
  "NewLLMClient libs0 anthropic0 cfg0 s_unknown cfg0
       = (Error (err_llm_model ''no-such-model'' ''openai''), s_unknown)
   \<and> NewLLMClient libs0 anthropic0 cfg0 s_claude cfg0
       = (Error (err_llm_model ''gpt-4'' ''anthropic''), s_claude)
   \<and> NewEmbeddingsClient libs0 cfg0 s_unknown cfg0
       = (Error (err_llm_model ''no-such-model'' ''openai''), s_unknown)"
  using C6_unknown_model_refused [where s = s_unknown and cfg = cfg0 and pkg = cfg0
      and libs = libs0 and A = anthropic0]
    C6_unknown_model_refused [where s = s_claude and cfg = cfg0 and pkg = cfg0
      and libs = libs0 and A = anthropic0]
  by (simp add: input_defs s_unknown_def s_claude_def has_key_def ValidOpenAILLMs_def
      ValidAnthropicLLMs_def)






section \<open>Properties of the summarizer\<close>

lemma quot_pos: "0 \<le> a \<Longrightarrow> quot a 2 = a div 2"
  by (simp add: quot_def sgn_if)

text \<open>In a list of messages with distinct UUIDs, a message's UUID is found at its index.\<close>

lemma indexOf_distinct:
  "distinct (map UUID ms) \<Longrightarrow> i < length ms \<Longrightarrow> indexOf (UUID (ms ! i)) ms = int i"
proof (induction ms arbitrary: i)
  case Nil
  then show ?case by simp
next
  case (Cons m ms)
  show ?case
  proof (cases i)
    case 0
    then show ?thesis by simp
  next
    case (Suc j)
    with Cons.prems have j: "j < length ms" and d: "distinct (map UUID ms)"
      and n: "UUID m \<notin> UUID ` set ms" by simp_all
    from j have "UUID (ms ! j) \<in> UUID ` set ms" by simp
    with n have "UUID m \<noteq> UUID (ms ! j)" by metis
    with Cons.IH [OF d j] Suc show ?thesis by (simp add: Let_def)
  qed
qed

text \<open>The two ways \<open>summarize\<close> returns a summary, and its two branches.\<close>

lemma summarize_noop:
  "cutIndexOf w ms k < 0 \<or> cutIndexOf w ms k \<le> priorSummaryPointIndex ms p
   \<Longrightarrow> summarize d w ms p k = Ok p"
  by (simp add: summarize_def Let_def)

lemma summarize_step:
  assumes "0 \<le> cutIndexOf w ms k" "priorSummaryPointIndex ms p < cutIndexOf w ms k"
    "cutIndexOf w ms k < int (length ms)"
  shows "summarize d w ms p k =
     (case Complete d (Prompt d (summaryInput ms p (priorSummaryPointIndex ms p)
                                   (cutIndexOf w ms k))) of
        Ok content \<Rightarrow> Ok (Some \<lparr>Content = content, TokenCount = GetTokenCount d content,
                        SummaryPointUUID = UUID (ms ! nat (cutIndexOf w ms k))\<rparr>)
      | Error e \<Rightarrow> Error e | Exit m \<Rightarrow> Exit m)"
  using assms by (simp add: summarize_def Let_def split: result.splits)

lemma summarize_Ok_cases:
  assumes "summarize d w ms p k = Ok r"
  shows "r = p \<and> (cutIndexOf w ms k < 0 \<or> cutIndexOf w ms k \<le> priorSummaryPointIndex ms p)
       \<or> (\<exists>s. r = Some s \<and> SummaryPointUUID s = UUID (ms ! nat (cutIndexOf w ms k))
              \<and> 0 \<le> cutIndexOf w ms k \<and> cutIndexOf w ms k < int (length ms)
              \<and> priorSummaryPointIndex ms p < cutIndexOf w ms k)"
  using assms
  by (auto simp: summarize_def Let_def split: if_splits result.splits)

text \<open>
  C1. Take a window size above 0, a pending count of at most half the window, and
  messages such that the index \<open>idx = len(messages) - windowSize/2 - 1\<close> is not
  negative and lies past the prior summary point (which is always so without a prior
  summary, or with one whose summary point is none of the messages). Then \<open>summarize\<close>
  completes the prompt and, unless the completion fails, returns a new summary with
  the completion's content, its token count, and the UUID of the message at \<open>idx\<close> as
  summary point; a failure of the completion is returned as it is. So whatever summary
  is returned has that summary point, with or without a prior summary.
\<close>

theorem C1_summary_point_at_cut:
  assumes "0 < windowSize" and "minPendingCount \<le> quot windowSize 2"
    and "idx = int (length messages) - quot windowSize 2 - 1"
    and "0 \<le> idx" and "priorSummaryPointIndex messages prior < idx"
  shows "summarize d windowSize messages prior minPendingCount =
     (case Complete d (Prompt d (summaryInput messages prior
                                   (priorSummaryPointIndex messages prior) idx)) of
        Ok content \<Rightarrow> Ok (Some \<lparr>Content = content, TokenCount = GetTokenCount d content,
                        SummaryPointUUID = UUID (messages ! nat idx)\<rparr>)
      | Error e \<Rightarrow> Error e | Exit m \<Rightarrow> Exit m)"
proof -
  have q: "0 \<le> quot windowSize 2" using assms(1) by (simp add: quot_pos)
  have c: "cutIndexOf windowSize messages minPendingCount = idx"
    using assms(2,3) by (simp add: cutIndexOf_def max_def)
  have l: "idx < int (length messages)" using q assms(3) by simp
  have "summarize d windowSize messages prior minPendingCount =
     (case Complete d (Prompt d (summaryInput messages prior
              (priorSummaryPointIndex messages prior)
              (cutIndexOf windowSize messages minPendingCount))) of
        Ok content \<Rightarrow> Ok (Some \<lparr>Content = content, TokenCount = GetTokenCount d content,
            SummaryPointUUID = UUID (messages ! nat (cutIndexOf windowSize messages minPendingCount))\<rparr>)
      | Error e \<Rightarrow> Error e | Exit m \<Rightarrow> Exit m)"
    using assms(4,5) l by (intro summarize_step) (simp_all add: c)
  then show ?thesis unfolding c .
qed

theorem C1_summary_point_at_cut_witness:
  "(0::int) < 10 \<and> (0::int) \<le> quot 10 2 \<and> int (length msgs12) - quot 10 2 - 1 = 6
   \<and> priorSummaryPointIndex msgs12 (Some existing) < 6
   \<and> summarize d0 10 msgs12 (Some existing) 0
       = Ok (Some \<lparr>Content = ''Summary: Existing summary contentabcdefg'', TokenCount = 40,
                    SummaryPointUUID = 107\<rparr>)
   \<and> summarize d0 10 msgs12 None 0
       = Ok (Some \<lparr>Content = ''Summary: abcdefg'', TokenCount = 16, SummaryPointUUID = 107\<rparr>)
   \<and> UUID (msgs12 ! 6) = 107"
  using C1_summary_point_at_cut [where windowSize = 10 and minPendingCount = 0 and idx = 6
      and messages = msgs12 and prior = "Some existing" and d = d0]
    C1_summary_point_at_cut [where windowSize = 10 and minPendingCount = 0 and idx = 6
      and messages = msgs12 and prior = None and d = d0]
  by (simp add: quot_def msgs12_def existing_def d0_def priorSummaryPointIndex_def
      summaryInput_def Let_def)

text \<open>
  C8. \<open>summarize\<close> is idempotent-forward. First, for any prior summary: when the cut
  index is negative or not past the prior summary point (no message is new past it),
  the prior summary is returned as it is, as a success. Second, when \<open>summarize\<close> has
  returned \<open>r\<close> for some messages and is called again with the same messages and \<open>r\<close>
  as prior summary, whatever it returns has its summary point no earlier than that of
  \<open>r\<close>. Third, when the messages have distinct UUIDs (so that a summary point
  names one message), the second call returns \<open>r\<close> itself.
\<close>

theorem C8_summarize_idempotent_forward:
  "(cutIndexOf w ms k < 0 \<or> cutIndexOf w ms k \<le> priorSummaryPointIndex ms p
      \<longrightarrow> summarize d w ms p k = Ok p)
   \<and> (summarize d w ms prior k = Ok r \<and> summarize d w ms r k = Ok r'
      \<longrightarrow> priorSummaryPointIndex ms r \<le> priorSummaryPointIndex ms r')
   \<and> (distinct (map UUID ms) \<and> summarize d w ms prior k = Ok r
      \<longrightarrow> summarize d w ms r k = Ok r)"
proof (intro conjI impI)
  assume "cutIndexOf w ms k < 0 \<or> cutIndexOf w ms k \<le> priorSummaryPointIndex ms p"
  then show "summarize d w ms p k = Ok p" by (rule summarize_noop)
next
  assume a: "summarize d w ms prior k = Ok r \<and> summarize d w ms r k = Ok r'"
  from a summarize_Ok_cases [of d w ms prior k r] summarize_Ok_cases [of d w ms r k r']
  show "priorSummaryPointIndex ms r \<le> priorSummaryPointIndex ms r'"
    by (auto simp: priorSummaryPointIndex_def)
next
  assume a: "distinct (map UUID ms) \<and> summarize d w ms prior k = Ok r"
  from a summarize_Ok_cases [of d w ms prior k r]
  consider "r = prior"
    | s where "r = Some s" "SummaryPointUUID s = UUID (ms ! nat (cutIndexOf w ms k))"
      "0 \<le> cutIndexOf w ms k" "cutIndexOf w ms k < int (length ms)"
    by blast
  then show "summarize d w ms r k = Ok r"
  proof cases
    case 1
    with a show ?thesis by simp
  next
    case 2
    from 2(3,4) have "nat (cutIndexOf w ms k) < length ms" by simp
    with a have "indexOf (UUID (ms ! nat (cutIndexOf w ms k))) ms = int (nat (cutIndexOf w ms k))"
      by (simp add: indexOf_distinct)
    with 2 have "priorSummaryPointIndex ms r = cutIndexOf w ms k"
      by (simp add: priorSummaryPointIndex_def)
    then show ?thesis by (simp add: summarize_noop)
  qed
qed

theorem C8_summarize_idempotent_forward_witness:
  "distinct (map UUID msgs12)
   \<and> summarize d0 10 msgs12 None 0 = Ok (Some summary7)
   \<and> summarize d0 10 msgs12 (Some summary7) 0 = Ok (Some summary7)
   \<and> cutIndexOf 10 (take 4 msgs12) 0 < 0
   \<and> summarize d0 10 (take 4 msgs12) (Some existing) 0 = Ok (Some existing)"
proof -
  have d: "distinct (map UUID msgs12)" by (simp add: msgs12_def)
  have f: "summarize d0 10 msgs12 None 0 = Ok (Some summary7)"
    by (simp add: summarize_def cutIndexOf_def quot_def msgs12_def d0_def summary7_def
        priorSummaryPointIndex_def summaryInput_def Let_def)
  have c: "cutIndexOf 10 (take 4 msgs12) 0 < 0"
    by (simp add: cutIndexOf_def quot_def msgs12_def)
  from d f c
    C8_summarize_idempotent_forward [where ms = msgs12 and d = d0 and w = 10 and k = 0
      and prior = None and r = "Some summary7"]
    C8_summarize_idempotent_forward [where ms = "take 4 msgs12" and d = d0 and w = 10
      and k = 0 and p = "Some existing"]
  show ?thesis by simp
qed

end
